theory Spec2Isabelle
  imports Complex_Main "HOL-Library.Log_Nat"
begin

section \<open>The JavaScript Number values used by the calculator\<close>

text \<open>
  \<^verbatim>\<open>App.tsx\<close> computes on JavaScript Numbers: the results of \<^verbatim>\<open>parseFloat\<close>, the
  subtraction, the division by \<^verbatim>\<open>kmPerLiter\<close>, the scaling by 100 and \<^verbatim>\<open>Math.round\<close>.
  A Number is an IEEE 754 binary64 value: not-a-number, the two infinities, the two
  zeros, and the finite non-zero values, each a rational. \<open>Fin 0\<close> is the positive
  zero, \<open>NegZero\<close> the negative one. Every operation below computes the exact rational
  result and rounds it to the nearest binary64 value (\<open>fl\<close>), ties to even, as
  ECMAScript prescribes.
\<close>

datatype number = NaN | PInf | NInf | NegZero | Fin rat

definition pow2 :: "int \<Rightarrow> rat" where
  "pow2 e = (if 0 \<le> e then 2 ^ nat e else 1 / 2 ^ nat (- e))"

definition ilog2 :: "rat \<Rightarrow> int" where
  \<comment> \<open>for \<open>0 < a\<close>, the exponent \<open>e\<close> with \<open>2^e \<le> a < 2^(e+1)\<close>\<close>
  "ilog2 a =
     (let (p, q) = quotient_of a; d = bitlen p - bitlen q
      in if pow2 d \<le> a then d else d - 1)"

definition round_half_even :: "rat \<Rightarrow> int" where
  "round_half_even x =
     (let f = \<lfloor>x\<rfloor>; r = x - of_int f
      in if r < 1 / 2 then f
         else if 1 / 2 < r then f + 1
         else if even f then f else f + 1)"

definition fl :: "rat \<Rightarrow> number" where
  \<comment> \<open>the Number value for a rational: 53 significant bits, exponents from -1022
      (below that the spacing stays \<open>2^-1074\<close>), overflow to an infinity from \<open>2^1024\<close>\<close>
  "fl q =
     (if q = 0 then Fin 0
      else
        let a = \<bar>q\<bar>;
            e = max (ilog2 a) (- 1022);
            u = pow2 (e - 52);
            r = of_int (round_half_even (a / u)) * u
        in if pow2 1024 \<le> r then (if q < 0 then NInf else PInf)
           else if r = 0 then (if q < 0 then NegZero else Fin 0)
           else Fin (if q < 0 then - r else r))"

fun is_neg :: "number \<Rightarrow> bool" where
  "is_neg NInf = True"
| "is_neg NegZero = True"
| "is_neg (Fin q) = (q < 0)"
| "is_neg _ = False"

fun is_inf :: "number \<Rightarrow> bool" where
  "is_inf PInf = True"
| "is_inf NInf = True"
| "is_inf _ = False"

fun val :: "number \<Rightarrow> rat" where
  "val (Fin q) = q"
| "val _ = 0"

definition is_zero :: "number \<Rightarrow> bool" where
  "is_zero x = (x = NegZero \<or> x = Fin 0)"

definition signed_zero :: "bool \<Rightarrow> number" where
  "signed_zero neg = (if neg then NegZero else Fin 0)"

definition signed_inf :: "bool \<Rightarrow> number" where
  "signed_inf neg = (if neg then NInf else PInf)"

definition isNaN :: "number \<Rightarrow> bool" where
  "isNaN x = (x = NaN)"

definition jsub :: "number \<Rightarrow> number \<Rightarrow> number" where
  \<comment> \<open>\<^verbatim>\<open>x - y\<close>\<close>
  "jsub x y =
     (if x = NaN \<or> y = NaN then NaN
      else if is_inf x then (if y = x then NaN else x)
      else if is_inf y then signed_inf (\<not> is_neg y)
      else if val x - val y = 0 then signed_zero (x = NegZero \<and> y = Fin 0)
      else fl (val x - val y))"

definition jmul :: "number \<Rightarrow> number \<Rightarrow> number" where
  \<comment> \<open>\<^verbatim>\<open>x * y\<close>\<close>
  "jmul x y =
     (if x = NaN \<or> y = NaN then NaN
      else if is_inf x \<or> is_inf y then
        (if is_zero x \<or> is_zero y then NaN else signed_inf (is_neg x \<noteq> is_neg y))
      else if val x * val y = 0 then signed_zero (is_neg x \<noteq> is_neg y)
      else fl (val x * val y))"

definition jdiv :: "number \<Rightarrow> number \<Rightarrow> number" where
  \<comment> \<open>\<^verbatim>\<open>x / y\<close>\<close>
  "jdiv x y =
     (if x = NaN \<or> y = NaN then NaN
      else if is_inf x then (if is_inf y then NaN else signed_inf (is_neg x \<noteq> is_neg y))
      else if is_inf y then signed_zero (is_neg x \<noteq> is_neg y)
      else if is_zero y then (if is_zero x then NaN else signed_inf (is_neg x \<noteq> is_neg y))
      else if is_zero x then signed_zero (is_neg x \<noteq> is_neg y)
      else fl (val x / val y))"

fun Math_round :: "number \<Rightarrow> number" where
  \<comment> \<open>\<^verbatim>\<open>Math.round\<close>: the nearest integer, a tie going towards positive infinity; a
      value in \<open>[-1/2, 0)\<close> gives the negative zero\<close>
  "Math_round (Fin q) =
     (let r = \<lfloor>q + 1 / 2\<rfloor> in if r = 0 \<and> q < 0 then NegZero else Fin (of_int r))"
| "Math_round x = x"

fun rank :: "number \<Rightarrow> int" where
  "rank NInf = - 1"
| "rank PInf = 1"
| "rank _ = 0"

definition jlt :: "number \<Rightarrow> number \<Rightarrow> bool" where
  \<comment> \<open>\<^verbatim>\<open>x < y\<close>: false when either side is NaN; the two zeros are equal\<close>
  "jlt x y = (x \<noteq> NaN \<and> y \<noteq> NaN \<and>
     (rank x < rank y \<or> (rank x = rank y \<and> val x < val y)))"

definition jgt :: "number \<Rightarrow> number \<Rightarrow> bool" where
  \<comment> \<open>\<^verbatim>\<open>x > y\<close>\<close>
  "jgt x y = jlt y x"

definition jle :: "number \<Rightarrow> number \<Rightarrow> bool" where
  \<comment> \<open>\<^verbatim>\<open>x <= y\<close>: false when either side is NaN, otherwise the negation of \<^verbatim>\<open>y < x\<close>\<close>
  "jle x y = (x \<noteq> NaN \<and> y \<noteq> NaN \<and> \<not> jlt y x)"


section \<open>\<^verbatim>\<open>parseFloat\<close>\<close>

text \<open>
  \<^verbatim>\<open>parseFloat\<close> skips leading white space and reads the longest prefix of the rest that
  is a decimal literal: an optional sign, then \<^verbatim>\<open>Infinity\<close>, or digits with an optional
  fraction and an optional exponent (an exponent mark counts only when digits follow it).
  What follows the prefix is ignored; with no such prefix the result is NaN. Strings are
  modelled as lists of 8-bit characters, so the white space is the one of that range.
\<close>

definition is_ws :: "char \<Rightarrow> bool" where
  "is_ws c = ((of_char c :: nat) \<in> {9, 10, 11, 12, 13, 32, 160})"

definition is_digit :: "char \<Rightarrow> bool" where
  "is_digit c = (48 \<le> (of_char c :: nat) \<and> (of_char c :: nat) \<le> 57)"

definition digits_val :: "string \<Rightarrow> int" where
  "digits_val ds = foldl (\<lambda>n c. 10 * n + (of_char c - 48)) 0 ds"

definition pow10 :: "int \<Rightarrow> rat" where
  "pow10 e = (if 0 \<le> e then 10 ^ nat e else 1 / 10 ^ nat (- e))"

definition split_sign :: "string \<Rightarrow> bool \<times> string" where
  \<comment> \<open>an optional \<^verbatim>\<open>+\<close> or \<^verbatim>\<open>-\<close>: whether it is a minus, and the rest\<close>
  "split_sign s =
     (case s of
        [] \<Rightarrow> (False, s)
      | c # r \<Rightarrow>
          if c = CHR ''-'' then (True, r)
          else if c = CHR ''+'' then (False, r)
          else (False, s))"

definition exponent_part :: "string \<Rightarrow> int" where
  \<comment> \<open>the value of the exponent part at the head of the string, 0 when there is none\<close>
  "exponent_part s =
     (case s of
        [] \<Rightarrow> 0
      | c # r \<Rightarrow>
          if c = CHR ''e'' \<or> c = CHR ''E'' then
            (let (neg, r') = split_sign r; es = takeWhile is_digit r'
             in if es = [] then 0
                else if neg then - digits_val es else digits_val es)
          else 0)"

definition split_fraction :: "string \<Rightarrow> string \<times> string" where
  \<comment> \<open>a decimal point and the digits after it: those digits, and the rest\<close>
  "split_fraction s =
     (case s of
        [] \<Rightarrow> ([], s)
      | c # r \<Rightarrow>
          if c = CHR ''.'' then (takeWhile is_digit r, dropWhile is_digit r)
          else ([], s))"

definition parseFloat :: "string \<Rightarrow> number" where
  "parseFloat s =
     (let (neg, u) = split_sign (dropWhile is_ws s)
      in if take 8 u = ''Infinity'' then signed_inf neg
         else
           let ip = takeWhile is_digit u;
               (fp, r) = split_fraction (dropWhile is_digit u)
           in if ip = [] \<and> fp = [] then NaN
              else
                let m = of_int (digits_val (ip @ fp)) * pow10 (exponent_part r - int (length fp))
                in if m = 0 then signed_zero neg
                   else fl (if neg then - m else m))"

definition starts_with_number :: "string \<Rightarrow> bool" where
  \<comment> \<open>the text has a number at its head: after leading white space and an optional sign
      it begins with \<^verbatim>\<open>Infinity\<close>, with a digit, or with a point and a digit\<close>
  "starts_with_number t =
     (let u = snd (split_sign (dropWhile is_ws t))
      in take 8 u = ''Infinity'' \<or>
         (case u of
            [] \<Rightarrow> False
          | c # r \<Rightarrow>
              is_digit c \<or>
              (c = CHR ''.'' \<and> (case r of [] \<Rightarrow> False | d # _ \<Rightarrow> is_digit d))))"

section \<open>The calculator's state and handlers (\<^verbatim>\<open>src/App.tsx\<close>)\<close>

text \<open>
  The vehicle catalog (\<^verbatim>\<open>vehicleConfig.json\<close>) and the text catalog
  (\<^verbatim>\<open>translations.json\<close>) are static data read by the component; the handlers take
  them as parameters \<open>vehicleTypes\<close> and \<open>translations\<close>. Of a language's texts the
  handlers read only the four error messages.
\<close>

record VehicleType =
  id_v :: string
  name :: string
  kmPerLiter :: number

datatype Language = Lang_en | Lang_id

record Errors =
  fillAllFields :: string
  validNumbers :: string
  kmBGreater :: string
  validVehicle :: string

record Translation =
  errors :: Errors

type_synonym Translations = "Language \<Rightarrow> Translation"

text \<open>
  The component's \<^verbatim>\<open>useState\<close> cells. The earlier, English-only version of the
  component has the first five; the bilingual version adds \<open>language\<close>. An absent
  result is \<^verbatim>\<open>null\<close>, an absent error the empty string.
\<close>

record FormFields =
  kmA :: string
  kmB :: string
  selectedVehicle :: string
  result :: "number option"
  error :: string

record AppState = FormFields +
  language :: Language

definition initial :: AppState where
  \<comment> \<open>the arguments of the six \<^verbatim>\<open>useState\<close> calls, lines 14-19\<close>
  "initial = \<lparr>kmA = [], kmB = [], selectedVehicle = [], result = None, error = [],
     language = Lang_id\<rparr>"

definition toggleLanguage :: "AppState \<Rightarrow> AppState" where
  \<comment> \<open>lines 24-27\<close>
  "toggleLanguage s =
     s\<lparr>language := (if language s = Lang_en then Lang_id else Lang_en), error := []\<rparr>"

definition calculateFuelConsumption ::
  "VehicleType list \<Rightarrow> Translations \<Rightarrow> AppState \<Rightarrow> AppState" where
  \<comment> \<open>lines 29-64; \<open>t\<close> is \<^verbatim>\<open>translations[language]\<close> of line 22, \<open>s0\<close> the state after
      the two clearing calls of lines 31-32; each \<^verbatim>\<open>return\<close> is a branch\<close>
  "calculateFuelConsumption vehicleTypes translations s =
     (let t = translations (language s);
          s0 = s\<lparr>error := [], result := None\<rparr>
      in if kmA s = [] \<or> kmB s = [] \<or> selectedVehicle s = [] then
           s0\<lparr>error := fillAllFields (errors t)\<rparr>
         else
           let kmANum = parseFloat (kmA s); kmBNum = parseFloat (kmB s)
           in if isNaN kmANum \<or> isNaN kmBNum then s0\<lparr>error := validNumbers (errors t)\<rparr>
              else if jle kmBNum kmANum then s0\<lparr>error := kmBGreater (errors t)\<rparr>
              else
                (case find (\<lambda>v. id_v v = selectedVehicle s) vehicleTypes of
                   None \<Rightarrow> s0\<lparr>error := validVehicle (errors t)\<rparr>
                 | Some vehicle \<Rightarrow>
                     let totalKm = jsub kmBNum kmANum;
                         fuelNeeded = jdiv totalKm (kmPerLiter vehicle)
                     in s0\<lparr>result :=
                          Some (jdiv (Math_round (jmul fuelNeeded (Fin 100))) (Fin 100))\<rparr>))"

definition resetForm :: "AppState \<Rightarrow> AppState" where
  \<comment> \<open>lines 66-72\<close>
  "resetForm s = s\<lparr>kmA := [], kmB := [], selectedVehicle := [], result := None, error := []\<rparr>"

definition setKmA :: "string \<Rightarrow> AppState \<Rightarrow> AppState" where
  \<comment> \<open>the \<^verbatim>\<open>onChange\<close> handlers of the three inputs, lines 107, 122 and 136\<close>
  "setKmA v s = s\<lparr>kmA := v\<rparr>"

definition setKmB :: "string \<Rightarrow> AppState \<Rightarrow> AppState" where
  "setKmB v s = s\<lparr>kmB := v\<rparr>"

definition setSelectedVehicle :: "string \<Rightarrow> AppState \<Rightarrow> AppState" where
  "setSelectedVehicle v s = s\<lparr>selectedVehicle := v\<rparr>"

definition distanceDisplay :: "AppState \<Rightarrow> number option" where
  \<comment> \<open>the "total distance" box of the rendered form, lines 149-155: the number it shows,
      or nothing\<close>
  "distanceDisplay s =
     (if kmA s \<noteq> [] \<and> kmB s \<noteq> [] \<and> \<not> isNaN (parseFloat (kmA s)) \<and>
         \<not> isNaN (parseFloat (kmB s)) \<and> jgt (parseFloat (kmB s)) (parseFloat (kmA s))
      then Some (jsub (parseFloat (kmB s)) (parseFloat (kmA s)))
      else None)"

text \<open>The user's actions, and the states they lead to from the mounted component.\<close>

datatype action =
  EditKmA string | EditKmB string | SelectVehicle string | Calculate | Reset | ToggleLanguage

fun perform :: "VehicleType list \<Rightarrow> Translations \<Rightarrow> action \<Rightarrow> AppState \<Rightarrow> AppState" where
  "perform vt tr (EditKmA v) s = setKmA v s"
| "perform vt tr (EditKmB v) s = setKmB v s"
| "perform vt tr (SelectVehicle v) s = setSelectedVehicle v s"
| "perform vt tr Calculate s = calculateFuelConsumption vt tr s"
| "perform vt tr Reset s = resetForm s"
| "perform vt tr ToggleLanguage s = toggleLanguage s"

inductive reachable :: "VehicleType list \<Rightarrow> Translations \<Rightarrow> AppState \<Rightarrow> bool"
  for vt :: "VehicleType list" and tr :: Translations where
  mounted: "reachable vt tr initial"
| acted: "reachable vt tr s \<Longrightarrow> reachable vt tr (perform vt tr a s)"

section \<open>The earlier, English-only version of the component (\<^verbatim>\<open>src/unnamed/part_000\<close>)\<close>

text \<open>
  Its \<^verbatim>\<open>calculateFuelConsumption\<close> (lines 19-54) has the same checks and arithmetic and
  sets fixed English messages; its state has no language.
\<close>

definition calculateFuelConsumption_v1 :: "VehicleType list \<Rightarrow> FormFields \<Rightarrow> FormFields" where
  "calculateFuelConsumption_v1 vehicleTypes s =
     (let s0 = s\<lparr>error := [], result := None\<rparr>
      in if kmA s = [] \<or> kmB s = [] \<or> selectedVehicle s = [] then
           s0\<lparr>error := ''Please fill in all fields''\<rparr>
         else
           let kmANum = parseFloat (kmA s); kmBNum = parseFloat (kmB s)
           in if isNaN kmANum \<or> isNaN kmBNum then
                s0\<lparr>error := ''Please enter valid numbers for kilometers''\<rparr>
              else if jle kmBNum kmANum then s0\<lparr>error := ''KM B must be greater than KM A''\<rparr>
              else
                (case find (\<lambda>v. id_v v = selectedVehicle s) vehicleTypes of
                   None \<Rightarrow> s0\<lparr>error := ''Please select a valid vehicle type''\<rparr>
                 | Some vehicle \<Rightarrow>
                     let totalKm = jsub kmBNum kmANum;
                         fuelNeeded = jdiv totalKm (kmPerLiter vehicle)
                     in s0\<lparr>result :=
                          Some (jdiv (Math_round (jmul fuelNeeded (Fin 100))) (Fin 100))\<rparr>))"

section \<open>The specification's vocabulary\<close>

text \<open>
  The specification names the rounding of the result, the four failures and the order of
  the checks in its own words. The definitions of this section follow those words
  (prefix \<open>spec_\<close>); the theorems below compare them with the handlers above.
\<close>

fun spec_round_half_away :: "number \<Rightarrow> number" where
  \<comment> \<open>rounding to the nearest integer, a tie going away from zero\<close>
  "spec_round_half_away (Fin q) =
     (let m = \<lfloor>\<bar>q\<bar> + 1 / 2\<rfloor>
      in if q < 0 then (if m = 0 then NegZero else Fin (- of_int m)) else Fin (of_int m))"
| "spec_round_half_away x = x"

definition drop_exponent :: "string \<Rightarrow> string" where
  \<comment> \<open>the text without the exponent part at its head, if it has one\<close>
  "drop_exponent s =
     (case s of
        [] \<Rightarrow> s
      | c # r \<Rightarrow>
          if c = CHR ''e'' \<or> c = CHR ''E'' then
            (let r' = snd (split_sign r)
             in if takeWhile is_digit r' = [] then s else dropWhile is_digit r')
          else s)"

definition spec_numeric :: "string \<Rightarrow> bool" where
  \<comment> \<open>numeric text: the text, in full, is a decimal number (an optional sign, digits with
      an optional fraction or a point and digits, an optional exponent)\<close>
  "spec_numeric t =
     (let u = snd (split_sign t);
          (fp, r) = split_fraction (dropWhile is_digit u)
      in (takeWhile is_digit u \<noteq> [] \<or> fp \<noteq> []) \<and> drop_exponent r = [])"

datatype failure = MissingFieldError | InvalidNumberError | InvalidRangeError | UnknownVehicleError

fun message :: "Errors \<Rightarrow> failure \<Rightarrow> string" where
  \<comment> \<open>the text of a language's catalog that \<^verbatim>\<open>App.tsx\<close> shows for each failure\<close>
  "message er MissingFieldError = fillAllFields er"
| "message er InvalidNumberError = validNumbers er"
| "message er InvalidRangeError = kmBGreater er"
| "message er UnknownVehicleError = validVehicle er"

definition spec_checks ::
  "VehicleType list \<Rightarrow> 'a FormFields_scheme \<Rightarrow> (failure \<times> bool) list" where
  \<comment> \<open>the four checks in the specification's fixed order, each with whether it fails\<close>
  "spec_checks vehicleTypes s =
     [(MissingFieldError, kmA s = [] \<or> kmB s = [] \<or> selectedVehicle s = []),
      (InvalidNumberError, isNaN (parseFloat (kmA s)) \<or> isNaN (parseFloat (kmB s))),
      (InvalidRangeError, jle (parseFloat (kmB s)) (parseFloat (kmA s))),
      (UnknownVehicleError, find (\<lambda>v. id_v v = selectedVehicle s) vehicleTypes = None)]"

definition spec_first_failure ::
  "VehicleType list \<Rightarrow> 'a FormFields_scheme \<Rightarrow> failure option" where
  "spec_first_failure vehicleTypes s = map_option fst (find snd (spec_checks vehicleTypes s))"

definition failure_of_text :: "string \<Rightarrow> failure option" where
  \<comment> \<open>the failure that each fixed message of the English-only version stands for\<close>
  "failure_of_text m =
     (if m = ''Please fill in all fields'' then Some MissingFieldError
      else if m = ''Please enter valid numbers for kilometers'' then Some InvalidNumberError
      else if m = ''KM B must be greater than KM A'' then Some InvalidRangeError
      else if m = ''Please select a valid vehicle type'' then Some UnknownVehicleError
      else None)"

definition mutex :: "'a FormFields_scheme \<Rightarrow> bool" where
  \<comment> \<open>a result and an error are not both present\<close>
  "mutex s = (\<not> (result s \<noteq> None \<and> error s \<noteq> []))"

section \<open>Sample data for the closed examples\<close>

text \<open>
  The two catalogs are not among the sources, so the examples run on a small vehicle
  list and on a text catalog whose English messages are those of the English-only
  version of the component.
\<close>

definition sample_vehicles :: "VehicleType list" where
  "sample_vehicles =
     [\<lparr>id_v = ''motorcycle'', name = ''Motorcycle'', kmPerLiter = Fin 40\<rparr>,
      \<lparr>id_v = ''car'', name = ''Car'', kmPerLiter = Fin 20\<rparr>]"

definition english :: Translation where
  "english = \<lparr>errors = \<lparr>fillAllFields = ''Please fill in all fields'',
     validNumbers = ''Please enter valid numbers for kilometers'',
     kmBGreater = ''KM B must be greater than KM A'',
     validVehicle = ''Please select a valid vehicle type''\<rparr>\<rparr>"

definition indonesian :: Translation where
  "indonesian = \<lparr>errors = \<lparr>fillAllFields = ''Harap isi semua kolom'',
     validNumbers = ''Harap masukkan angka yang valid'',
     kmBGreater = ''KM B harus lebih besar dari KM A'',
     validVehicle = ''Harap pilih jenis kendaraan yang valid''\<rparr>\<rparr>"

fun sample_translations :: Translations where
  "sample_translations Lang_en = english"
| "sample_translations Lang_id = indonesian"

definition form :: "string \<Rightarrow> string \<Rightarrow> string \<Rightarrow> AppState" where
  \<comment> \<open>the freshly mounted component after the three fields have been filled in\<close>
  "form a b v = initial\<lparr>kmA := a, kmB := b, selectedVehicle := v\<rparr>"

section \<open>Facts about the Number model\<close>

text \<open>
  \<open>ilog2\<close> is the binary exponent of a positive rational, so \<open>fl\<close> rounds at the spacing
  of that binade; \<open>fl_eval\<close> evaluates \<open>fl\<close> once the exponent is known.
\<close>

lemma pow2_pos: "0 < pow2 e"
  by (simp add: pow2_def)

lemma round_half_even_of_int: "round_half_even (of_int m) = m"
  by (simp add: round_half_even_def)

lemma round_half_even_numeral: "round_half_even (numeral w) = numeral w"
  using round_half_even_of_int [of "numeral w"] by simp

lemma round_half_even_nonneg: "0 \<le> x \<Longrightarrow> 0 \<le> round_half_even x"
  by (simp add: round_half_even_def Let_def)

lemma pow2_powi: "pow2 e = 2 powi e"
  by (simp add: pow2_def power_int_def inverse_eq_divide power_one_over)

lemma pow2_diff: "pow2 (a - b) = pow2 a / pow2 b"
  by (simp add: pow2_powi power_int_diff)

lemma pow2_mono: "a \<le> b \<Longrightarrow> pow2 a \<le> pow2 b"
  by (simp add: pow2_powi power_int_increasing)

lemma bitlen_pow2_bounds:
  assumes "0 < p"
  shows "pow2 (bitlen p - 1) \<le> of_int p" and "of_int p < pow2 (bitlen p)"
proof -
  have b: "1 \<le> bitlen p"
    using assms by (simp add: bitlen_alt_def)
  have "(2::int) ^ nat (bitlen p - 1) \<le> p" and "p < 2 ^ nat (bitlen p)"
    using bitlen_bounds [OF assms] by simp_all
  then have "(of_int ((2::int) ^ nat (bitlen p - 1)) :: rat) \<le> of_int p"
    and "(of_int p :: rat) < of_int (2 ^ nat (bitlen p))"
    by (simp_all only: of_int_le_iff of_int_less_iff)
  then show "pow2 (bitlen p - 1) \<le> of_int p" and "of_int p < pow2 (bitlen p)"
    using b by (simp_all add: pow2_def)
qed

lemma ilog2_bounds:
  assumes "0 < a"
  shows "pow2 (ilog2 a) \<le> a \<and> a < pow2 (ilog2 a + 1)"
proof -
  obtain p q where pq: "quotient_of a = (p, q)"
    by (cases "quotient_of a")
  have q: "0 < q"
    using pq by (rule quotient_of_denom_pos)
  have a: "a = of_int p / of_int q"
    using pq by (rule quotient_of_div)
  have p: "0 < p"
    using assms q by (simp add: a zero_less_divide_iff)
  define d where "d = bitlen p - bitlen q"
  have "a < pow2 (bitlen p) / pow2 (bitlen q - 1)"
    unfolding a using bitlen_pow2_bounds [OF p] bitlen_pow2_bounds [OF q] p pow2_pos [of "bitlen q - 1"]
    by (intro frac_less) simp_all
  then have hi: "a < pow2 (d + 1)"
    by (simp add: d_def pow2_diff [symmetric] algebra_simps)
  have "pow2 (bitlen p - 1) / pow2 (bitlen q) < a"
    unfolding a using bitlen_pow2_bounds [OF p] bitlen_pow2_bounds [OF q] q pow2_pos [of "bitlen p - 1"]
    by (intro frac_less2) simp_all
  then have lo: "pow2 (d - 1) < a"
    by (simp add: d_def pow2_diff [symmetric] algebra_simps)
  have il: "ilog2 a = (if pow2 d \<le> a then d else d - 1)"
    by (simp add: ilog2_def pq d_def)
  show ?thesis
    using hi lo by (simp add: il)
qed

lemma ilog2_unique:
  assumes "pow2 e \<le> a" and "a < pow2 (e + 1)"
  shows "ilog2 a = e"
proof -
  have "0 < a"
    using assms(1) pow2_pos [of e] by simp
  then have b: "pow2 (ilog2 a) \<le> a" "a < pow2 (ilog2 a + 1)"
    using ilog2_bounds by simp_all
  have "\<not> ilog2 a < e"
  proof
    assume "ilog2 a < e"
    then have "pow2 (ilog2 a + 1) \<le> pow2 e"
      by (intro pow2_mono) simp
    with b(2) assms(1) show False by simp
  qed
  moreover have "\<not> e < ilog2 a"
  proof
    assume "e < ilog2 a"
    then have "pow2 (e + 1) \<le> pow2 (ilog2 a)"
      by (intro pow2_mono) simp
    with b(1) assms(2) show False by simp
  qed
  ultimately show ?thesis by simp
qed


lemma fl_eval:
  assumes "pow2 e \<le> \<bar>q\<bar>" and "\<bar>q\<bar> < pow2 (e + 1)"
  shows "fl q =
    (let u = pow2 (max e (- 1022) - 52);
         r = of_int (round_half_even (\<bar>q\<bar> / u)) * u
     in if pow2 1024 \<le> r then (if q < 0 then NInf else PInf)
        else if r = 0 then (if q < 0 then NegZero else Fin 0)
        else Fin (if q < 0 then - r else r))"
proof -
  have "q \<noteq> 0"
    using assms(1) pow2_pos [of e] by auto
  then show ?thesis
    by (simp add: fl_def ilog2_unique [OF assms])
qed

lemma floor_rat_numeral_div: "\<lfloor>numeral a / numeral b :: rat\<rfloor> = numeral a div numeral b"
  by (metis floor_divide_of_int_eq of_int_numeral)

lemmas fl_eval_simps = pow2_def Let_def round_half_even_def floor_rat_numeral_div

text \<open>Rounding to binary64 changes no integer of magnitude up to \<open>2^53\<close>.\<close>

lemma ilog2_of_int:
  assumes "0 < k"
  shows "ilog2 (of_int k) = bitlen k - 1"
proof -
  have b1: "bitlen 1 = 1"
    by (simp add: bitlen_alt_def)
  have pos: "1 \<le> bitlen k"
    using assms by (simp add: bitlen_alt_def)
  have "(2::int) ^ nat (bitlen k - 1) \<le> k"
    using bitlen_bounds [OF assms] by simp
  then have "(of_int ((2::int) ^ nat (bitlen k - 1)) :: rat) \<le> of_int k"
    by (simp only: of_int_le_iff)
  then have "pow2 (bitlen k - 1) \<le> of_int k"
    using pos by (simp add: pow2_def)
  then show ?thesis
    by (simp add: ilog2_def b1)
qed

lemma fl_of_int:
  assumes "\<bar>n\<bar> \<le> 2 ^ 53"
  shows "fl (of_int n) = Fin (of_int n)"
proof (cases "n = 0")
  case True
  then show ?thesis by (simp add: fl_def)
next
  case False
  define k where "k = \<bar>n\<bar>"
  have kpos: "0 < k" and kle: "k \<le> 2 ^ 53"
    using False assms by (simp_all add: k_def)
  define e where "e = bitlen k - 1"
  have e0: "0 \<le> e"
    using kpos by (simp add: e_def bitlen_alt_def)
  have lo: "2 ^ nat e \<le> k" and hi: "k < 2 ^ nat (e + 1)"
    using bitlen_bounds [OF kpos] by (simp_all add: e_def)
  have e53: "e \<le> 53"
  proof (rule ccontr)
    assume "\<not> e \<le> 53"
    then have "(54::nat) \<le> nat e" by simp
    then have "(2::int) ^ 54 \<le> 2 ^ nat e"
      by (intro power_increasing) simp_all
    with lo kle show False by simp
  qed
  have absn: "\<bar>of_int n :: rat\<bar> = of_int k"
    by (simp add: k_def)
  have il: "max (ilog2 (of_int k)) (- 1022) = e"
    using ilog2_of_int [OF kpos] e0 by (simp add: e_def)
  have r: "of_int (round_half_even (of_int k / pow2 (e - 52))) * pow2 (e - 52) = (of_int k :: rat)"
  proof (cases "e \<le> 52")
    case True
    then have "pow2 (e - 52) = 1 / 2 ^ nat (52 - e)"
      by (cases "e = 52") (simp_all add: pow2_def)
    moreover have "(of_int k :: rat) * 2 ^ nat (52 - e) = of_int (k * 2 ^ nat (52 - e))"
      by simp
    moreover have "(of_int (k * 2 ^ nat (52 - e)) :: rat) / 2 ^ nat (52 - e) = of_int k"
      by simp
    ultimately show ?thesis
      by (simp add: round_half_even_of_int del: of_int_mult of_int_power)
  next
    case False
    with e53 have e: "e = 53" by simp
    with lo kle have k: "k = 2 ^ 53" by simp
    have "(of_int k :: rat) / 2 = of_int (2 ^ 52)"
      by (simp add: k)
    then show ?thesis
      using e by (simp add: pow2_def round_half_even_numeral k)
  qed
  have small: "\<not> pow2 1024 \<le> (of_int k :: rat)"
  proof -
    have "(of_int k :: rat) \<le> of_int (2 ^ 53)"
      using kle by (simp only: of_int_le_iff)
    also have "\<dots> < 2 ^ 1024" by simp
    finally show ?thesis by (simp add: pow2_def)
  qed
  have sgn: "(if n < 0 then - of_int k else of_int k) = (of_int n :: rat)"
    by (simp add: k_def)
  have "fl (of_int n) = Fin (if n < 0 then - of_int k else of_int k)"
    using False kpos e0 small by (simp add: fl_def Let_def il absn r)
  then show ?thesis by (simp only: sgn)
qed

lemma fl_numeral: "numeral w \<le> (2::int) ^ 53 \<Longrightarrow> fl (numeral w) = Fin (numeral w)"
  using fl_of_int [of "numeral w"] by simp

text \<open>Rounding keeps the sign, so the calculator's arithmetic on a positive distance and a
  positive efficiency never produces a negative value.\<close>

lemma Math_round_half_away: "\<not> is_neg x \<Longrightarrow> Math_round x = spec_round_half_away x"
  by (cases x) (simp_all add: Let_def)

lemma fl_not_neg:
  assumes "0 \<le> q"
  shows "\<not> is_neg (fl q)"
proof -
  define u where "u = pow2 (max (ilog2 q) (- 1022) - 52)"
  have u: "0 < u"
    by (simp add: u_def pow2_pos)
  then have "0 \<le> q / u"
    using assms by simp
  then have "0 \<le> round_half_even (q / u)"
    by (rule round_half_even_nonneg)
  then have "\<not> (of_int (round_half_even (q / u)) :: rat) * u < 0"
    using u by (simp add: not_less)
  then show ?thesis
    using assms unfolding u_def by (simp add: fl_def Let_def)
qed

lemma jsub_not_neg: "jgt x y \<Longrightarrow> \<not> is_neg (jsub x y)"
  by (cases x; cases y) (simp_all add: jgt_def jlt_def jsub_def signed_inf_def fl_not_neg)

lemma jdiv_not_neg: "\<not> is_neg x \<Longrightarrow> jgt k (Fin 0) \<Longrightarrow> \<not> is_neg (jdiv x k)"
  by (cases x; cases k)
    (simp_all add: jgt_def jlt_def jdiv_def signed_inf_def signed_zero_def is_zero_def fl_not_neg)

lemma jmul_100_not_neg: "\<not> is_neg x \<Longrightarrow> \<not> is_neg (jmul x (Fin 100))"
  by (cases x) (simp_all add: jmul_def signed_inf_def signed_zero_def is_zero_def fl_not_neg)

lemma floor_int_half: "\<lfloor>(of_int n :: rat) + 1 / 2\<rfloor> = n"
  by (rule floor_unique) simp_all

lemma spec_round_half_away_numeral: "spec_round_half_away (Fin (numeral w)) = Fin (numeral w)"
  using floor_int_half [of "numeral w"] by (simp del: floor_add_int)

text \<open>Evaluating \<^verbatim>\<open>parseFloat\<close> on a literal string.\<close>

lemmas parse_eval = parseFloat_def split_sign_def split_fraction_def exponent_part_def
  is_ws_def is_digit_def digits_val_def pow10_def signed_zero_def signed_inf_def

lemmas sample_eval = sample_vehicles_def english_def indonesian_def form_def initial_def

lemma parseFloat_Nil: "parseFloat [] = NaN"
  by (simp add: parseFloat_def split_sign_def split_fraction_def)

section \<open>C1: the stored result\<close>

text \<open>
  Claim C1. When both distance texts parse as numbers (\<^verbatim>\<open>parseFloat\<close> gives no NaN), the
  parsed end is strictly greater than the parsed start, a vehicle is selected and its
  identifier is found in the catalog, and the found vehicle's \<open>kmPerLiter\<close> is greater
  than zero, then \<open>calculateFuelConsumption\<close> stores
  \<open>round(((end - start) / kmPerLiter) * 100) / 100\<close>, the rounding being to the nearest
  integer with ties away from zero, and leaves the error empty. A selected vehicle has a
  non-empty identifier: the empty identifier is the value of the selector's "none
  selected" entry. \<^verbatim>\<open>Math.round\<close> sends ties towards positive infinity; on the values that
  arise here, which are never negative, that is the same rounding. The example of the
  claim, start \<^verbatim>\<open>10\<close>, end \<^verbatim>\<open>110\<close> and 20 km per litre, gives 5.
\<close>

theorem calculate_result:
  assumes "\<not> isNaN (parseFloat (kmA s))"
    and "\<not> isNaN (parseFloat (kmB s))"
    and "jgt (parseFloat (kmB s)) (parseFloat (kmA s))"
    and "selectedVehicle s \<noteq> []"
    and "find (\<lambda>v. id_v v = selectedVehicle s) vehicleTypes = Some vehicle"
    and "jgt (kmPerLiter vehicle) (Fin 0)"
  shows "result (calculateFuelConsumption vehicleTypes translations s) =
      Some (jdiv (spec_round_half_away
        (jmul (jdiv (jsub (parseFloat (kmB s)) (parseFloat (kmA s))) (kmPerLiter vehicle))
           (Fin 100))) (Fin 100))
    \<and> error (calculateFuelConsumption vehicleTypes translations s) = []"
proof -
  have a: "kmA s \<noteq> []" and b: "kmB s \<noteq> []"
    using assms(1,2) by (auto simp: isNaN_def parseFloat_Nil)
  have le: "\<not> jle (parseFloat (kmB s)) (parseFloat (kmA s))"
    using assms(3) by (simp add: jle_def jgt_def)
  have "\<not> is_neg (jmul (jdiv (jsub (parseFloat (kmB s)) (parseFloat (kmA s)))
      (kmPerLiter vehicle)) (Fin 100))"
    by (intro jmul_100_not_neg jdiv_not_neg jsub_not_neg assms(3) assms(6))
  then have rnd: "Math_round (jmul (jdiv (jsub (parseFloat (kmB s)) (parseFloat (kmA s)))
      (kmPerLiter vehicle)) (Fin 100)) =
    spec_round_half_away (jmul (jdiv (jsub (parseFloat (kmB s)) (parseFloat (kmA s)))
      (kmPerLiter vehicle)) (Fin 100))"
    by (rule Math_round_half_away)
  show ?thesis
    using a b le assms(1,2,4,5) by (simp add: calculateFuelConsumption_def Let_def rnd)
qed

theorem calculate_result_witness:
  "\<not> isNaN (parseFloat (kmA (form ''10'' ''110'' ''car''))) \<and>
   \<not> isNaN (parseFloat (kmB (form ''10'' ''110'' ''car''))) \<and>
   jgt (parseFloat (kmB (form ''10'' ''110'' ''car''))) (parseFloat (kmA (form ''10'' ''110'' ''car''))) \<and>
   selectedVehicle (form ''10'' ''110'' ''car'') \<noteq> [] \<and>
   find (\<lambda>v. id_v v = selectedVehicle (form ''10'' ''110'' ''car'')) sample_vehicles =
     Some \<lparr>id_v = ''car'', name = ''Car'', kmPerLiter = Fin 20\<rparr> \<and>
   jgt (kmPerLiter \<lparr>id_v = ''car'', name = ''Car'', kmPerLiter = Fin 20\<rparr>) (Fin 0) \<and>
   result (calculateFuelConsumption sample_vehicles sample_translations (form ''10'' ''110'' ''car'')) =
     Some (Fin 5) \<and>
   error (calculateFuelConsumption sample_vehicles sample_translations (form ''10'' ''110'' ''car'')) = []"
proof -
  have a: "parseFloat ''10'' = Fin 10" and b: "parseFloat ''110'' = Fin 110"
    by (simp_all add: parse_eval fl_numeral)
  have h1: "\<not> isNaN (parseFloat (kmA (form ''10'' ''110'' ''car'')))"
    and h2: "\<not> isNaN (parseFloat (kmB (form ''10'' ''110'' ''car'')))"
    and h3: "jgt (parseFloat (kmB (form ''10'' ''110'' ''car'')))
       (parseFloat (kmA (form ''10'' ''110'' ''car'')))"
    and h4: "selectedVehicle (form ''10'' ''110'' ''car'') \<noteq> []"
    and h5: "find (\<lambda>v. id_v v = selectedVehicle (form ''10'' ''110'' ''car'')) sample_vehicles =
       Some \<lparr>id_v = ''car'', name = ''Car'', kmPerLiter = Fin 20\<rparr>"
    and h6: "jgt (kmPerLiter \<lparr>id_v = ''car'', name = ''Car'', kmPerLiter = Fin 20\<rparr>) (Fin 0)"
    by (simp_all add: sample_eval a b isNaN_def jgt_def jlt_def)
  have v: "jdiv (spec_round_half_away (jmul (jdiv (jsub (Fin 110) (Fin 10)) (Fin 20)) (Fin 100)))
      (Fin 100) = Fin 5"
    by (simp add: jsub_def jdiv_def jmul_def is_zero_def fl_numeral spec_round_half_away_numeral
        del: spec_round_half_away.simps)
  show ?thesis
    using calculate_result [OF h1 h2 h3 h4 h5 h6, of sample_translations] h1 h2 h3 h4 h5 h6
    by (simp add: form_def initial_def a b v)
qed

text \<open>
  A second example, where the rounding shows: start \<^verbatim>\<open>10\<close>, end \<^verbatim>\<open>110.5\<close> and 20 km per
  litre need 5.025 litres; the scaled value is just above 502.5, it rounds to 503, and
  the stored result is the binary64 value nearest to 5.03.
\<close>

lemma calculate_rounding_example:
  "result (calculateFuelConsumption sample_vehicles sample_translations (form ''10'' ''110.5'' ''car'')) =
     Some (Fin (5663276531418399 / 1125899906842624)) \<and>
   fl (503 / 100) = Fin (5663276531418399 / 1125899906842624)"
proof -
  have a: "parseFloat ''10'' = Fin 10"
    by (simp add: parse_eval fl_numeral)
  have b: "parseFloat ''110.5'' = Fin (221 / 2)"
    by (simp add: parse_eval) (subst fl_eval [where e = 6], simp_all add: fl_eval_simps)
  have d: "jsub (Fin (221 / 2)) (Fin 10) = Fin (201 / 2)"
    by (simp add: jsub_def) (subst fl_eval [where e = 6], simp_all add: fl_eval_simps)
  have q: "jdiv (Fin (201 / 2)) (Fin 20) = Fin (2828823515942093 / 562949953421312)"
    by (simp add: jdiv_def is_zero_def) (subst fl_eval [where e = 2], simp_all add: fl_eval_simps)
  have m: "jmul (Fin (2828823515942093 / 562949953421312)) (Fin 100) =
      Fin (8840073487319041 / 17592186044416)"
    by (simp add: jmul_def) (subst fl_eval [where e = 8], simp_all add: fl_eval_simps)
  have r: "Math_round (Fin (8840073487319041 / 17592186044416)) = Fin 503"
    by (simp add: floor_rat_numeral_div)
  have f: "fl (503 / 100) = Fin (5663276531418399 / 1125899906842624)"
    by (subst fl_eval [where e = 2]) (simp_all add: fl_eval_simps)
  have e: "jdiv (Fin 503) (Fin 100) = Fin (5663276531418399 / 1125899906842624)"
    by (simp add: jdiv_def is_zero_def f)
  have "jle (Fin (221 / 2)) (Fin 10) = False"
    by (simp add: jle_def jlt_def)
  then show ?thesis
    by (simp add: calculateFuelConsumption_def sample_eval a b d q m r e f isNaN_def
        del: Math_round.simps)
qed

section \<open>C2: a result and an error are never shown together\<close>

text \<open>The exclusion, for the calculation, for each action and along every run.\<close>

lemma mutex_calculate: "mutex (calculateFuelConsumption vt tr s)"
  by (simp add: mutex_def calculateFuelConsumption_def Let_def split: option.split)

lemma mutex_perform: "mutex s \<Longrightarrow> mutex (perform vt tr a s)"
  by (cases a)
    (simp_all add: mutex_calculate, simp_all add: mutex_def setKmA_def setKmB_def
      setSelectedVehicle_def resetForm_def toggleLanguage_def)

lemma mutex_reachable: "reachable vt tr s \<Longrightarrow> mutex s"
proof (induction rule: reachable.induct)
  case mounted
  show ?case by (simp add: mutex_def initial_def)
next
  case (acted s a)
  then show ?case by (simp add: mutex_perform)
qed

text \<open>
  Claim C2. After \<open>calculateFuelConsumption\<close>, from any state, the result and the error
  are not both present; every action (an edit of a field, a calculation, a reset, a
  language toggle) keeps that; so it holds in every state reached from the mounted
  component.
\<close>

theorem result_error_exclusive:
  "mutex (calculateFuelConsumption vt tr s) \<and>
   (mutex s' \<longrightarrow> mutex (perform vt tr a s')) \<and>
   (reachable vt tr s'' \<longrightarrow> mutex s'')"
  by (simp add: mutex_calculate mutex_perform mutex_reachable)

theorem result_error_exclusive_witness:
  "mutex (calculateFuelConsumption sample_vehicles sample_translations
      (initial\<lparr>result := Some (Fin 1), error := ''stale''\<rparr>)) \<and>
   mutex (toggleLanguage initial) \<and>
   mutex (perform sample_vehicles sample_translations Calculate (toggleLanguage initial)) \<and>
   reachable sample_vehicles sample_translations
     (perform sample_vehicles sample_translations Calculate
       (perform sample_vehicles sample_translations (EditKmA ''10'') initial)) \<and>
   mutex (perform sample_vehicles sample_translations Calculate
       (perform sample_vehicles sample_translations (EditKmA ''10'') initial))"
proof -
  have m: "mutex (toggleLanguage initial)"
    by (simp add: mutex_def toggleLanguage_def initial_def)
  have r: "reachable sample_vehicles sample_translations
     (perform sample_vehicles sample_translations Calculate
       (perform sample_vehicles sample_translations (EditKmA ''10'') initial))"
    by (intro reachable.intros)
  show ?thesis
    using result_error_exclusive [of sample_vehicles sample_translations
        "initial\<lparr>result := Some (Fin 1), error := ''stale''\<rparr>" "toggleLanguage initial" Calculate
        "perform sample_vehicles sample_translations Calculate
          (perform sample_vehicles sample_translations (EditKmA ''10'') initial)"] m r
    by blast
qed

section \<open>C3: a missing field\<close>

text \<open>
  Claim C3. When the start text, the end text or the vehicle identifier is empty,
  \<open>calculateFuelConsumption\<close> sets the error to the active language's
  \<open>fillAllFields\<close> message (the MissingFieldError) and leaves the result absent.
\<close>

theorem missing_field:
  assumes "kmA s = [] \<or> kmB s = [] \<or> selectedVehicle s = []"
  shows "error (calculateFuelConsumption vt tr s) = fillAllFields (errors (tr (language s))) \<and>
    result (calculateFuelConsumption vt tr s) = None"
  using assms by (auto simp: calculateFuelConsumption_def Let_def)

theorem missing_field_witness:
  "(kmA (form [] ''100'' ''car'') = [] \<or> kmB (form [] ''100'' ''car'') = [] \<or>
      selectedVehicle (form [] ''100'' ''car'') = []) \<and>
   error (calculateFuelConsumption sample_vehicles sample_translations (form [] ''100'' ''car'')) =
     ''Harap isi semua kolom'' \<and>
   result (calculateFuelConsumption sample_vehicles sample_translations (form [] ''100'' ''car'')) =
     None"
proof -
  have h: "kmA (form [] ''100'' ''car'') = [] \<or> kmB (form [] ''100'' ''car'') = [] \<or>
      selectedVehicle (form [] ''100'' ''car'') = []"
    by (simp add: form_def)
  show ?thesis
    using missing_field [OF h, of sample_vehicles sample_translations] h
    by (simp add: form_def initial_def indonesian_def)
qed

section \<open>C4: text that is not a number\<close>




lemma is_ws_not_literal:
  "is_ws c \<Longrightarrow> c \<noteq> CHR ''-'' \<and> c \<noteq> CHR ''+'' \<and> c \<noteq> CHR ''.'' \<and> \<not> is_digit c"
  by (auto simp: is_ws_def is_digit_def)

lemma takeWhile_digit_head: "takeWhile is_digit u \<noteq> [] \<Longrightarrow> \<exists>d r. u = d # r \<and> is_digit d"
  by (cases u) (auto split: if_splits)

lemma numeric_starts_with_number:
  assumes "spec_numeric t"
  shows "starts_with_number t"
proof -
  define u where "u = snd (split_sign t)"
  have num: "takeWhile is_digit u \<noteq> [] \<or> fst (split_fraction (dropWhile is_digit u)) \<noteq> []"
    using assms by (simp add: spec_numeric_def u_def Let_def split: prod.splits)
  have ws: "dropWhile is_ws t = t"
  proof (cases t)
    case Nil
    then show ?thesis by simp
  next
    case (Cons c r)
    have "\<not> is_ws c"
    proof
      assume w: "is_ws c"
      then have "u = t"
        using Cons is_ws_not_literal [OF w] by (simp add: u_def split_sign_def)
      then show False
        using num Cons is_ws_not_literal [OF w] by (simp add: split_fraction_def)
    qed
    then show ?thesis using Cons by simp
  qed
  have "case u of [] \<Rightarrow> False
    | c # r \<Rightarrow> is_digit c \<or> (c = CHR ''.'' \<and> (case r of [] \<Rightarrow> False | d # _ \<Rightarrow> is_digit d))"
  proof (cases "takeWhile is_digit u = []")
    case False
    then show ?thesis
      using takeWhile_digit_head [of u] by auto
  next
    case True
    then have d: "dropWhile is_digit u = u"
      by (cases u) (auto split: if_splits)
    from num True have "fst (split_fraction u) \<noteq> []"
      by (simp add: d)
    then show ?thesis
      using takeWhile_digit_head
      by (cases u) (auto simp: split_fraction_def split: if_splits list.splits)
  qed
  then show ?thesis
    by (simp add: starts_with_number_def ws u_def)
qed




text \<open>
  A text that starts with a number and goes on with other characters parses as that
  number, whatever follows.
\<close>

lemma parseFloat_reads_prefix: "parseFloat ''12abc'' = Fin 12 \<and> parseFloat '' 7 km'' = Fin 7"
  by (simp add: parse_eval fl_numeral)

section \<open>C5: an end not beyond the start\<close>

text \<open>
  Claim C5 says that whenever both distance texts parse as numbers and the parsed end is
  less than or equal to the parsed start, \<open>calculateFuelConsumption\<close> sets the
  InvalidRangeError message. As stated it fails: with start \<^verbatim>\<open>50\<close>, end \<^verbatim>\<open>50\<close> and no
  vehicle selected, the check for missing fields comes first and the error is the
  MissingFieldError message.
\<close>

theorem invalid_range_counterexample:
  "\<not> isNaN (parseFloat (kmA (form ''50'' ''50'' []))) \<and>
   \<not> isNaN (parseFloat (kmB (form ''50'' ''50'' []))) \<and>
   jle (parseFloat (kmB (form ''50'' ''50'' []))) (parseFloat (kmA (form ''50'' ''50'' []))) \<and>
   error (calculateFuelConsumption sample_vehicles sample_translations (form ''50'' ''50'' [])) \<noteq>
     kmBGreater (errors (sample_translations (language (form ''50'' ''50'' []))))"
proof -
  have "parseFloat ''50'' = Fin 50"
    by (simp add: parse_eval fl_numeral)
  then show ?thesis
    by (simp add: calculateFuelConsumption_def form_def initial_def indonesian_def isNaN_def
        jle_def jlt_def)
qed

text \<open>
  Claim C5 as amended. When both distance texts parse as numbers, the parsed end is less
  than or equal to the parsed start (equality included) and the vehicle identifier is
  non-empty, \<open>calculateFuelConsumption\<close> sets the error to the active language's
  \<open>kmBGreater\<close> message (the InvalidRangeError) and leaves the result absent.
\<close>

theorem invalid_range:
  assumes "\<not> isNaN (parseFloat (kmA s))" and "\<not> isNaN (parseFloat (kmB s))"
    and "jle (parseFloat (kmB s)) (parseFloat (kmA s))"
    and "selectedVehicle s \<noteq> []"
  shows "error (calculateFuelConsumption vt tr s) = kmBGreater (errors (tr (language s))) \<and>
    result (calculateFuelConsumption vt tr s) = None"
proof -
  have "kmA s \<noteq> []" and "kmB s \<noteq> []"
    using assms(1,2) by (auto simp: isNaN_def parseFloat_Nil)
  then show ?thesis
    using assms by (simp add: calculateFuelConsumption_def Let_def)
qed

theorem invalid_range_witness:
  "\<not> isNaN (parseFloat (kmA (form ''50'' ''50'' ''car''))) \<and>
   \<not> isNaN (parseFloat (kmB (form ''50'' ''50'' ''car''))) \<and>
   jle (parseFloat (kmB (form ''50'' ''50'' ''car''))) (parseFloat (kmA (form ''50'' ''50'' ''car''))) \<and>
   selectedVehicle (form ''50'' ''50'' ''car'') \<noteq> [] \<and>
   error (calculateFuelConsumption sample_vehicles sample_translations (form ''50'' ''50'' ''car'')) =
     ''KM B harus lebih besar dari KM A'' \<and>
   result (calculateFuelConsumption sample_vehicles sample_translations (form ''50'' ''50'' ''car'')) =
     None"
proof -
  have p: "parseFloat ''50'' = Fin 50"
    by (simp add: parse_eval fl_numeral)
  have h1: "\<not> isNaN (parseFloat (kmA (form ''50'' ''50'' ''car'')))"
    and h2: "\<not> isNaN (parseFloat (kmB (form ''50'' ''50'' ''car'')))"
    and h3: "jle (parseFloat (kmB (form ''50'' ''50'' ''car'')))
      (parseFloat (kmA (form ''50'' ''50'' ''car'')))"
    and h4: "selectedVehicle (form ''50'' ''50'' ''car'') \<noteq> []"
    by (simp_all add: form_def isNaN_def p jle_def jlt_def)
  show ?thesis
    using invalid_range [OF h1 h2 h3 h4, of sample_vehicles sample_translations] h1 h2 h3 h4
    by (simp add: form_def initial_def indonesian_def)
qed

section \<open>C6: the first failing check wins\<close>

text \<open>
  Claim C6. \<open>calculateFuelConsumption\<close> first clears the error and the result, so its
  outcome does not depend on what they held; then the error it sets is the message of the
  first check that fails, in the order MissingFieldError, InvalidNumberError,
  InvalidRangeError, UnknownVehicleError, with no result; and when no check fails it sets
  no error and stores a result.
\<close>

theorem first_failing_check_wins:
  "calculateFuelConsumption vt tr (s\<lparr>error := e, result := r\<rparr>) = calculateFuelConsumption vt tr s \<and>
   (case spec_first_failure vt s of
      Some f \<Rightarrow>
        error (calculateFuelConsumption vt tr s) = message (errors (tr (language s))) f \<and>
        result (calculateFuelConsumption vt tr s) = None
    | None \<Rightarrow>
        error (calculateFuelConsumption vt tr s) = [] \<and>
        result (calculateFuelConsumption vt tr s) \<noteq> None)"
proof
  show "calculateFuelConsumption vt tr (s\<lparr>error := e, result := r\<rparr>) =
      calculateFuelConsumption vt tr s"
    by (simp add: calculateFuelConsumption_def Let_def split: option.split)
next
  show "case spec_first_failure vt s of
      Some f \<Rightarrow>
        error (calculateFuelConsumption vt tr s) = message (errors (tr (language s))) f \<and>
        result (calculateFuelConsumption vt tr s) = None
    | None \<Rightarrow>
        error (calculateFuelConsumption vt tr s) = [] \<and>
        result (calculateFuelConsumption vt tr s) \<noteq> None"
    by (cases "find (\<lambda>v. id_v v = selectedVehicle s) vt")
      (simp_all add: spec_first_failure_def spec_checks_def calculateFuelConsumption_def Let_def)
qed

section \<open>C7: reset\<close>

text \<open>
  Claim C7. From every state \<open>resetForm\<close> gives the state with empty start and end
  texts, no vehicle selected, no result and no error, which are the values of the mounted
  component; it has no failing branch. The language is not among the cleared fields: it
  stays as it was.
\<close>

theorem reset_defaults:
  "kmA (resetForm s) = [] \<and> kmB (resetForm s) = [] \<and> selectedVehicle (resetForm s) = [] \<and>
   result (resetForm s) = None \<and> error (resetForm s) = [] \<and>
   resetForm s = initial\<lparr>language := language s\<rparr>"
  by (simp add: resetForm_def initial_def)

section \<open>C8: the language toggle\<close>

text \<open>
  Claim C8. \<open>toggleLanguage\<close> changes the language to the other of the two (twice
  gives the first again) and clears the error; the start text, the end text, the vehicle
  selection and the result stay as they were.
\<close>

theorem toggle_language_frame:
  "language (toggleLanguage s) \<noteq> language s \<and>
   language (toggleLanguage (toggleLanguage s)) = language s \<and>
   error (toggleLanguage s) = [] \<and>
   kmA (toggleLanguage s) = kmA s \<and> kmB (toggleLanguage s) = kmB s \<and>
   selectedVehicle (toggleLanguage s) = selectedVehicle s \<and>
   result (toggleLanguage s) = result s"
  by (cases "language s") (simp_all add: toggleLanguage_def)

section \<open>C9: the total distance shown while typing\<close>

text \<open>
  Claim C9. The distance box is shown exactly when both distance texts are non-empty,
  both parse as numbers and the parsed end is strictly greater than the parsed start;
  what it shows is the Number \<^verbatim>\<open>end - start\<close>, not rounded to two decimals; and it
  depends on the two texts only, not on the result, the error, the vehicle or the
  language, so no calculation is needed for it. On the mounted component with
  \<^verbatim>\<open>10\<close> and \<^verbatim>\<open>110.125\<close> typed in it shows 100.125.
\<close>

theorem distance_display:
  "(distanceDisplay s \<noteq> None \<longleftrightarrow>
      kmA s \<noteq> [] \<and> kmB s \<noteq> [] \<and> \<not> isNaN (parseFloat (kmA s)) \<and> \<not> isNaN (parseFloat (kmB s)) \<and>
      jgt (parseFloat (kmB s)) (parseFloat (kmA s))) \<and>
   distanceDisplay s \<in> {None, Some (jsub (parseFloat (kmB s)) (parseFloat (kmA s)))} \<and>
   distanceDisplay (s\<lparr>selectedVehicle := v, result := r, error := e, language := l\<rparr>) =
     distanceDisplay s \<and>
   distanceDisplay (form ''10'' ''110.125'' []) = Some (Fin (801 / 8))"
proof -
  have a: "parseFloat ''10'' = Fin 10"
    by (simp add: parse_eval fl_numeral)
  have b: "parseFloat ''110.125'' = Fin (881 / 8)"
    by (simp add: parse_eval) (subst fl_eval [where e = 6], simp_all add: fl_eval_simps)
  have c: "fl (801 / 8) = Fin (801 / 8)"
    by (subst fl_eval [where e = 6]) (simp_all add: fl_eval_simps)
  have "distanceDisplay (form ''10'' ''110.125'' []) = Some (Fin (801 / 8))"
    by (simp add: distanceDisplay_def form_def a b c isNaN_def jgt_def jlt_def jsub_def)
  then show ?thesis
    by (simp add: distanceDisplay_def)
qed

section \<open>C10: the English-only and the bilingual version agree\<close>

text \<open>
  Claim C10. On the same start text, end text and vehicle identifier, whatever the
  earlier result, error and language, the two versions of the calculation either fail at
  the same check (the English-only version shows its fixed message, the bilingual one the
  active language's message for that failure, and neither stores a result) or both set
  no error and store the same result.
\<close>

theorem versions_agree:
  "(case failure_of_text (error (calculateFuelConsumption_v1 vt
        \<lparr>kmA = a, kmB = b, selectedVehicle = v, result = r1, error = e1\<rparr>)) of
      Some f \<Rightarrow>
        error (calculateFuelConsumption vt tr
          \<lparr>kmA = a, kmB = b, selectedVehicle = v, result = r2, error = e2, language = l\<rparr>) =
          message (errors (tr l)) f \<and>
        result (calculateFuelConsumption_v1 vt
          \<lparr>kmA = a, kmB = b, selectedVehicle = v, result = r1, error = e1\<rparr>) = None \<and>
        result (calculateFuelConsumption vt tr
          \<lparr>kmA = a, kmB = b, selectedVehicle = v, result = r2, error = e2, language = l\<rparr>) = None
    | None \<Rightarrow>
        error (calculateFuelConsumption_v1 vt
          \<lparr>kmA = a, kmB = b, selectedVehicle = v, result = r1, error = e1\<rparr>) = [] \<and>
        error (calculateFuelConsumption vt tr
          \<lparr>kmA = a, kmB = b, selectedVehicle = v, result = r2, error = e2, language = l\<rparr>) = [] \<and>
        result (calculateFuelConsumption vt tr
          \<lparr>kmA = a, kmB = b, selectedVehicle = v, result = r2, error = e2, language = l\<rparr>) =
        result (calculateFuelConsumption_v1 vt
          \<lparr>kmA = a, kmB = b, selectedVehicle = v, result = r1, error = e1\<rparr>) \<and>
        result (calculateFuelConsumption_v1 vt
          \<lparr>kmA = a, kmB = b, selectedVehicle = v, result = r1, error = e1\<rparr>) \<noteq> None)"
  by (cases "find (\<lambda>x. id_v x = v) vt")
    (simp_all add: calculateFuelConsumption_def calculateFuelConsumption_v1_def Let_def
      failure_of_text_def)

text \<open>
  With the English messages in the text catalog the two versions leave the same start
  text, end text, vehicle, result and error.
\<close>

lemma versions_agree_english:
  "FormFields.truncate (calculateFuelConsumption vt (\<lambda>l. english)
      \<lparr>kmA = a, kmB = b, selectedVehicle = v, result = r, error = e, language = l\<rparr>) =
   calculateFuelConsumption_v1 vt \<lparr>kmA = a, kmB = b, selectedVehicle = v, result = r, error = e\<rparr>"
  by (cases "find (\<lambda>x. id_v x = v) vt")
    (simp_all add: calculateFuelConsumption_def calculateFuelConsumption_v1_def Let_def
      english_def FormFields.truncate_def)

end
